theory Spec2Isabelle
  imports Main
begin

section \<open>The relational store behind the user views\<close>

text \<open>
  The views of \<^verbatim>\<open>apps/user/views.py\<close> read and write three tables through the
  ORM: the users, the action tokens and the temporary tokens. A user row and an action
  token row carry their primary key; a foreign key is the primary key of the row it
  points to (the attribute \<^verbatim>\<open>user_id\<close> of the ORM instance). A temporary token is
  looked up by its key both as \<^verbatim>\<open>key\<close> and as \<^verbatim>\<open>pk\<close>
  (\<^verbatim>\<open>TemporaryTokenDestroy\<close>), so that table is a map from the key to the
  primary key of the bound user.
\<close>

record user =
  id_user :: nat
  email :: string
  password :: string
  is_active :: bool
  is_staff :: bool

record action_token =
  id_token :: nat
  key :: string
  type_token :: string
  user_id :: nat
  expired :: bool

record store =
  users :: "user list"
  action_tokens :: "action_token list"
  temporary_tokens :: "string \<rightharpoonup> nat"
  sent_emails :: "(string \<times> string) list"

text \<open>
  A request carries the account the authentication layer resolved and the parsed body;
  the body is a mapping from field names to strings, and \<^verbatim>\<open>request.data.get\<close>
  of an absent field is \<^verbatim>\<open>None\<close>.
\<close>

record request =
  user :: user
  data :: "string \<rightharpoonup> string"

text \<open>
  A value of the URL keyword arguments under \<^verbatim>\<open>pk\<close>: the string taken from the
  URL, or the integer that \<^verbatim>\<open>get_queryset\<close> stores there.
\<close>

datatype pk_arg = PkStr string | PkId nat

text \<open>A value of the local settings, compared with \<^verbatim>\<open>is True\<close> by the views.\<close>

datatype py_value = PyTrue | PyFalse | PyNone | PyStr string | PyInt int

record settings =
  AUTO_ACTIVATE_USER :: py_value
  EMAIL_SERVICE :: py_value

text \<open>
  The exceptions a handler can leave with. \<^verbatim>\<open>ValidationError\<close> carries the
  serializer's field-level errors.
\<close>

datatype 'j exn =
    Http404
  | PermissionDenied
  | ValidationError 'j
  | DoesNotExist
  | MultipleObjectsReturned
  | AttributeError
  | OverflowError

text \<open>
  A response body: nothing, the data of a serializer (or its errors), or a literal
  dictionary built by the view.
\<close>

datatype 'j body = Empty | Json 'j | Dict "(string \<times> string) list"

record 'j response =
  status :: nat
  body :: "'j body"

text \<open>
  The status a client sees: that of the response, or the one the framework's exception
  handler gives the exception. An exception the handler does not know is a server error.
\<close>

fun status_code :: "'j exn + 'j response \<Rightarrow> nat" where
  "status_code (Inr r) = status r"
| "status_code (Inl Http404) = 404"
| "status_code (Inl PermissionDenied) = 403"
| "status_code (Inl (ValidationError e)) = 400"
| "status_code (Inl DoesNotExist) = 500"
| "status_code (Inl MultipleObjectsReturned) = 500"
| "status_code (Inl AttributeError) = 500"
| "status_code (Inl OverflowError) = 500"

subsection \<open>ORM operations\<close>

text \<open>
  \<^verbatim>\<open>Model.objects.get(pk=i)\<close> on the users: the one row with that primary key,
  \<^verbatim>\<open>DoesNotExist\<close> when there is none, \<^verbatim>\<open>MultipleObjectsReturned\<close> when
  there are several.
\<close>

definition get_user :: "user list \<Rightarrow> nat \<Rightarrow> 'j exn + user" where
  "get_user queryset i =
     (case filter (\<lambda>r. id_user r = i) queryset of
        [] \<Rightarrow> Inl DoesNotExist
      | [r] \<Rightarrow> Inr r
      | _ \<Rightarrow> Inl MultipleObjectsReturned)"

text \<open>
  \<^verbatim>\<open>instance.save()\<close> of a user: an update of the rows with the instance's
  primary key, an insert when no row has it.
\<close>

definition save_user :: "store \<Rightarrow> user \<Rightarrow> store" where
  "save_user s u =
     (if \<exists>r \<in> set (users s). id_user r = id_user u
      then s\<lparr>users := map (\<lambda>r. if id_user r = id_user u then u else r) (users s)\<rparr>
      else s\<lparr>users := users s @ [u]\<rparr>)"

text \<open>\<^verbatim>\<open>instance.delete()\<close> of an action token removes the rows with its primary key.\<close>

definition delete_token :: "store \<Rightarrow> action_token \<Rightarrow> store" where
  "delete_token s t =
     s\<lparr>action_tokens := filter (\<lambda>r. id_token r \<noteq> id_token t) (action_tokens s)\<rparr>"

text \<open>
  \<^verbatim>\<open>ActionToken.objects.filter(key=k, type=ty)\<close>. The key of a row is never
  null, so the filter on \<^verbatim>\<open>None\<close> (a request without the field) matches no row.
\<close>

definition filter_tokens :: "store \<Rightarrow> string option \<Rightarrow> string \<Rightarrow> action_token list" where
  "filter_tokens s k ty =
     (case k of
        None \<Rightarrow> []
      | Some k' \<Rightarrow> filter (\<lambda>t. key t = k' \<and> type_token t = ty) (action_tokens s))"

text \<open>\<^verbatim>\<open>str.format\<close> of a value that is a string or \<^verbatim>\<open>None\<close>.\<close>

fun py_format :: "string option \<Rightarrow> string" where
  "py_format None = ''None''"
| "py_format (Some v) = v"

section \<open>Serializers and permissions named by the views\<close>

text \<open>
  The views name serializer and permission classes of the repository; what those classes
  compute is a parameter of each handler below: \<open>repr\<close> is the representation a
  serializer class gives a user (with the request as context), \<open>is_owner\<close> is the
  object-level check of \<^verbatim>\<open>permissions.IsOwner\<close> on the requesting user and the
  object, \<open>to_python\<close> is the conversion of a URL string to a primary key (no value
  when the string is not one).
\<close>

datatype serializer_class = UserUpdateSerializer | UserSerializer

datatype permission = IsAuthenticated | IsAdminUser | IsOwner

section \<open>UserViewSet\<close>

definition get_serializer_class :: "string \<Rightarrow> serializer_class" where
  "get_serializer_class action =
     (if action = ''update'' \<or> action = ''partial_update''
      then UserUpdateSerializer else UserSerializer)"

text \<open>
  \<^verbatim>\<open>get_queryset\<close> returns all users and rewrites the keyword argument
  \<^verbatim>\<open>pk\<close> of the view when it is the string \<^verbatim>\<open>"me"\<close>; the model returns
  the queryset and the keyword argument as it is afterwards.
\<close>

definition get_queryset :: "store \<Rightarrow> request \<Rightarrow> pk_arg \<Rightarrow> user list \<times> pk_arg" where
  "get_queryset s request pk =
     (let u = user request;
          queryset = users s
      in if pk = PkStr ''me'' then (queryset, PkId (id_user u)) else (queryset, pk))"

definition get_permissions :: "string \<Rightarrow> permission list" where
  "get_permissions action =
     (if action = ''create'' then []
      else if action = ''list'' then [IsAdminUser]
      else [IsAuthenticated, IsOwner])"

text \<open>
  The object-level check of a permission class: the framework's classes allow every
  object, \<^verbatim>\<open>IsOwner\<close> decides by \<open>is_owner\<close>.
\<close>

fun has_object_permission ::
  "(user \<Rightarrow> user \<Rightarrow> bool) \<Rightarrow> permission \<Rightarrow> request \<Rightarrow> user \<Rightarrow> bool" where
  "has_object_permission is_owner IsOwner request obj = is_owner (user request) obj"
| "has_object_permission is_owner IsAuthenticated request obj = True"
| "has_object_permission is_owner IsAdminUser request obj = True"

definition check_object_permissions ::
  "(user \<Rightarrow> user \<Rightarrow> bool) \<Rightarrow> string \<Rightarrow> request \<Rightarrow> user \<Rightarrow> bool" where
  "check_object_permissions is_owner action request obj =
     list_all (\<lambda>p. has_object_permission is_owner p request obj) (get_permissions action)"

text \<open>
  The value a keyword argument \<^verbatim>\<open>pk\<close> stands for in a lookup: the integer
  itself, or the conversion of the URL string (no value when the string is not a primary
  key).
\<close>

definition pk_value :: "(string \<Rightarrow> nat option) \<Rightarrow> pk_arg \<Rightarrow> nat option" where
  "pk_value to_python pk = (case pk of PkId n \<Rightarrow> Some n | PkStr v \<Rightarrow> to_python v)"

text \<open>
  The database holds a primary key as a signed 64-bit integer, so the largest is
  \<^verbatim>\<open>2**63 - 1\<close>. A lookup by a larger integer does not reach the table: the
  database driver raises \<^verbatim>\<open>OverflowError\<close>.
\<close>

definition db_max_integer :: nat where
  "db_max_integer = 9223372036854775807"

text \<open>
  The framework's \<^verbatim>\<open>get_object_or_404(queryset, pk=...)\<close>: a value that is not a
  primary key and a missing row are both \<^verbatim>\<open>Http404\<close>; the
  \<^verbatim>\<open>OverflowError\<close> of an integer the database cannot hold and several rows
  are not caught.
\<close>

definition get_object_or_404 ::
  "(string \<Rightarrow> nat option) \<Rightarrow> user list \<Rightarrow> pk_arg \<Rightarrow> 'j exn + user" where
  "get_object_or_404 to_python queryset pk =
     (case pk_value to_python pk of
        None \<Rightarrow> Inl Http404
      | Some i \<Rightarrow>
          if db_max_integer < i then Inl OverflowError
          else
            (case get_user queryset i of
               Inl DoesNotExist \<Rightarrow> Inl Http404
             | r \<Rightarrow> r))"

text \<open>
  The framework's \<^verbatim>\<open>get_object\<close>: the lookup in \<^verbatim>\<open>get_queryset()\<close> under
  the keyword argument as \<^verbatim>\<open>get_queryset\<close> left it, then the object-level
  permissions of the action.
\<close>

definition get_object ::
  "(user \<Rightarrow> user \<Rightarrow> bool) \<Rightarrow> (string \<Rightarrow> nat option) \<Rightarrow> string \<Rightarrow> store \<Rightarrow> request \<Rightarrow> pk_arg
     \<Rightarrow> 'j exn + user" where
  "get_object is_owner to_python action s request pk =
     (case get_queryset s request pk of
        (queryset, pk') \<Rightarrow>
          (case get_object_or_404 to_python queryset pk' of
             Inl e \<Rightarrow> Inl e
           | Inr obj \<Rightarrow>
               if check_object_permissions is_owner action request obj
               then Inr obj else Inl PermissionDenied))"

text \<open>The inherited \<^verbatim>\<open>retrieve\<close> and the view's own, which wraps it.\<close>

definition super_retrieve ::
  "(user \<Rightarrow> user \<Rightarrow> bool) \<Rightarrow> (string \<Rightarrow> nat option) \<Rightarrow> (serializer_class \<Rightarrow> request \<Rightarrow> user \<Rightarrow> 'j)
     \<Rightarrow> store \<Rightarrow> request \<Rightarrow> pk_arg \<Rightarrow> 'j exn + 'j response" where
  "super_retrieve is_owner to_python repr s request pk =
     (case get_object is_owner to_python ''retrieve'' s request pk of
        Inl e \<Rightarrow> Inl e
      | Inr instance \<Rightarrow>
          Inr \<lparr>status = 200,
               body = Json (repr (get_serializer_class ''retrieve'') request instance)\<rparr>)"

definition retrieve ::
  "(user \<Rightarrow> user \<Rightarrow> bool) \<Rightarrow> (string \<Rightarrow> nat option) \<Rightarrow> (serializer_class \<Rightarrow> request \<Rightarrow> user \<Rightarrow> 'j)
     \<Rightarrow> store \<Rightarrow> request \<Rightarrow> pk_arg \<Rightarrow> 'j exn + 'j response" where
  "retrieve is_owner to_python repr s request pk =
     (if is_staff (user request) then super_retrieve is_owner to_python repr s request pk
      else
        (case super_retrieve is_owner to_python repr s request pk of
           Inl Http404 \<Rightarrow> Inl PermissionDenied
         | r \<Rightarrow> r))"

definition destroy ::
  "(user \<Rightarrow> user \<Rightarrow> bool) \<Rightarrow> (string \<Rightarrow> nat option) \<Rightarrow> store \<Rightarrow> request \<Rightarrow> pk_arg
     \<Rightarrow> ('j exn + 'j response) \<times> store" where
  "destroy is_owner to_python s request pk =
     (case get_object is_owner to_python ''destroy'' s request pk of
        Inr instance \<Rightarrow>
          (Inr \<lparr>status = 204, body = Empty\<rparr>, save_user s (instance\<lparr>is_active := False\<rparr>))
      | Inl Http404 \<Rightarrow> (Inr \<lparr>status = 204, body = Empty\<rparr>, s)
      | Inl e \<Rightarrow> (Inl e, s))"

text \<open>
  The inherited \<^verbatim>\<open>update\<close>: the object, the validation of the body by the
  serializer of the action (\<open>validate\<close>: the errors, or the instance with the validated
  fields set), the save and the representation. \<^verbatim>\<open>partial_update\<close> is the
  framework's: \<^verbatim>\<open>update\<close> with \<^verbatim>\<open>partial=True\<close>.
\<close>

definition super_update ::
  "(user \<Rightarrow> user \<Rightarrow> bool) \<Rightarrow> (string \<Rightarrow> nat option)
     \<Rightarrow> (store \<Rightarrow> request \<Rightarrow> bool \<Rightarrow> user \<Rightarrow> 'j + user)
     \<Rightarrow> (serializer_class \<Rightarrow> request \<Rightarrow> user \<Rightarrow> 'j)
     \<Rightarrow> string \<Rightarrow> bool \<Rightarrow> store \<Rightarrow> request \<Rightarrow> pk_arg \<Rightarrow> ('j exn + 'j response) \<times> store" where
  "super_update is_owner to_python validate repr action partial s request pk =
     (case get_object is_owner to_python action s request pk of
        Inl e \<Rightarrow> (Inl e, s)
      | Inr instance \<Rightarrow>
          (case validate s request partial instance of
             Inl errors \<Rightarrow> (Inl (ValidationError errors), s)
           | Inr instance' \<Rightarrow>
               (Inr \<lparr>status = 200,
                     body = Json (repr (get_serializer_class action) request instance')\<rparr>,
                save_user s instance')))"

definition update ::
  "(user \<Rightarrow> user \<Rightarrow> bool) \<Rightarrow> (string \<Rightarrow> nat option)
     \<Rightarrow> (store \<Rightarrow> request \<Rightarrow> bool \<Rightarrow> user \<Rightarrow> 'j + user)
     \<Rightarrow> (serializer_class \<Rightarrow> request \<Rightarrow> user \<Rightarrow> 'j)
     \<Rightarrow> string \<Rightarrow> bool \<Rightarrow> store \<Rightarrow> request \<Rightarrow> pk_arg \<Rightarrow> ('j exn + 'j response) \<times> store" where
  "update is_owner to_python validate repr action partial s request pk =
     (if is_staff (user request)
      then super_update is_owner to_python validate repr action partial s request pk
      else
        (case super_update is_owner to_python validate repr action partial s request pk of
           (Inl Http404, s') \<Rightarrow> (Inl PermissionDenied, s')
         | r \<Rightarrow> r))"

definition partial_update ::
  "(user \<Rightarrow> user \<Rightarrow> bool) \<Rightarrow> (string \<Rightarrow> nat option)
     \<Rightarrow> (store \<Rightarrow> request \<Rightarrow> bool \<Rightarrow> user \<Rightarrow> 'j + user)
     \<Rightarrow> (serializer_class \<Rightarrow> request \<Rightarrow> user \<Rightarrow> 'j)
     \<Rightarrow> store \<Rightarrow> request \<Rightarrow> pk_arg \<Rightarrow> ('j exn + 'j response) \<times> store" where
  "partial_update is_owner to_python validate repr s request pk =
     update is_owner to_python validate repr ''partial_update'' True s request pk"

section \<open>UsersActivation\<close>

text \<open>\<^verbatim>\<open>UsersActivation.post\<close>.\<close>

definition activation_error :: "string option \<Rightarrow> string" where
  "activation_error activation_token =
     CHR 0x22 # py_format activation_token @ CHR 0x22 # '' is not a valid activation_token.''"

definition UsersActivation_post ::
  "(serializer_class \<Rightarrow> request \<Rightarrow> user \<Rightarrow> 'j) \<Rightarrow> store \<Rightarrow> request
     \<Rightarrow> ('j exn + 'j response) \<times> store" where
  "UsersActivation_post repr s request =
     (let activation_token = data request ''activation_token'';
          token = filter_tokens s activation_token ''account_activation''
      in if length token = 1 then
           (case get_user (users s) (user_id (token ! 0)) of
              Inl e \<Rightarrow> (Inl e, s)
            | Inr u \<Rightarrow>
                (let u' = u\<lparr>is_active := True\<rparr>;
                     s1 = save_user s u';
                     s2 = delete_token s1 (token ! 0)
                 in (Inr \<lparr>status = 200, body = Json (repr UserSerializer request u')\<rparr>, s2)))
         else
           (Inr \<lparr>status = 400,
                 body = Dict [(''activation_token'', activation_error activation_token)]\<rparr>, s))"

section \<open>ResetPassword\<close>

text \<open>
  \<^verbatim>\<open>ResetPassword.post\<close>. \<open>validate\<close> is \<^verbatim>\<open>ResetPasswordSerializer\<close>:
  its errors, or the user it validated. \<open>send_reset_password\<close> is the method of the
  user model, which works on the store (the token it creates, the email it sends).
\<close>

definition ResetPassword_post ::
  "(store \<Rightarrow> (string \<rightharpoonup> string) \<Rightarrow> 'j + user) \<Rightarrow> (store \<Rightarrow> user \<Rightarrow> store)
     \<Rightarrow> settings \<Rightarrow> store \<Rightarrow> request \<Rightarrow> ('j exn + 'j response) \<times> store" where
  "ResetPassword_post validate send_reset_password LOCAL_SETTINGS s request =
     (if EMAIL_SERVICE LOCAL_SETTINGS \<noteq> PyTrue then
        (Inr \<lparr>status = 501, body = Empty\<rparr>, s)
      else
        (case validate s (data request) of
           Inl errors \<Rightarrow> (Inr \<lparr>status = 400, body = Json errors\<rparr>, s)
         | Inr u \<Rightarrow> (Inr \<lparr>status = 201, body = Empty\<rparr>, send_reset_password s u)))"

section \<open>ChangePassword\<close>

text \<open>
  Modelled from the spec: \<^verbatim>\<open>ActionToken.get_password_change_token\<close> is a method of
  the repository's models, which are not among the sources. An action token is a
  single-use key with a purpose tag; at most one token with a given key is valid at a
  time, and zero or several matches are an error. The method gives the one token of
  purpose \<^verbatim>\<open>password_change\<close> with the key that is not expired, and nothing
  otherwise.
\<close>

definition get_password_change_token :: "store \<Rightarrow> string option \<Rightarrow> action_token option" where
  "get_password_change_token s token_key =
     (case filter (\<lambda>t. \<not> expired t) (filter_tokens s token_key ''password_change'') of
        [t] \<Rightarrow> Some t
      | _ \<Rightarrow> None)"

text \<open>
  Modelled from the spec: \<^verbatim>\<open>ActionToken.expire\<close> is a method of the repository's
  models, which are not among the sources. A token is consumed (deleted or expired) after
  one successful use; expiring marks the rows with the token's primary key as expired.
\<close>

definition expire :: "store \<Rightarrow> action_token \<Rightarrow> store" where
  "expire s t =
     s\<lparr>action_tokens :=
         map (\<lambda>r. if id_token r = id_token t then r\<lparr>expired := True\<rparr> else r) (action_tokens s)\<rparr>"

text \<open>
  \<^verbatim>\<open>user.set_password\<close>: the password field becomes the hash of the new password
  (\<open>make_password\<close>, the framework's hasher).
\<close>

definition set_password :: "(string option \<Rightarrow> string) \<Rightarrow> user \<Rightarrow> string option \<Rightarrow> user" where
  "set_password make_password u raw_password = u\<lparr>password := make_password raw_password\<rparr>"

text \<open>
  \<^verbatim>\<open>ChangePassword.post\<close>. \<open>validate\<close> is \<^verbatim>\<open>ChangePasswordSerializer\<close>:
  its errors when the body is not valid. Reading \<^verbatim>\<open>token.user\<close> of no token is
  an \<^verbatim>\<open>AttributeError\<close>.
\<close>

definition ChangePassword_post ::
  "(store \<Rightarrow> (string \<rightharpoonup> string) \<Rightarrow> 'j option) \<Rightarrow> (string option \<Rightarrow> string)
     \<Rightarrow> (serializer_class \<Rightarrow> request \<Rightarrow> user \<Rightarrow> 'j) \<Rightarrow> store \<Rightarrow> request
     \<Rightarrow> ('j exn + 'j response) \<times> store" where
  "ChangePassword_post validate make_password repr s request =
     (case validate s (data request) of
        Some errors \<Rightarrow> (Inl (ValidationError errors), s)
      | None \<Rightarrow>
          (let token_key = data request ''token'';
               new_password = data request ''new_password''
           in case get_password_change_token s token_key of
                None \<Rightarrow> (Inl AttributeError, s)
              | Some token \<Rightarrow>
                  (case get_user (users s) (user_id token) of
                     Inl e \<Rightarrow> (Inl e, s)
                   | Inr u \<Rightarrow>
                       (let u' = set_password make_password u new_password;
                            s1 = save_user s u';
                            s2 = expire s1 token
                        in (Inr \<lparr>status = 200, body = Json (repr UserSerializer request u')\<rparr>,
                            s2)))))"

section \<open>TemporaryTokenDestroy\<close>

text \<open>
  \<^verbatim>\<open>TemporaryTokenDestroy.get_queryset\<close>: the temporary tokens with the key of the
  URL that are bound to the requesting user, each as the pair of its key and its user.
\<close>

definition TemporaryTokenDestroy_get_queryset ::
  "store \<Rightarrow> request \<Rightarrow> string \<Rightarrow> (string \<times> nat) list" where
  "TemporaryTokenDestroy_get_queryset s request pk =
     (let key = pk
      in case temporary_tokens s key of
           None \<Rightarrow> []
         | Some u \<Rightarrow> if u = id_user (user request) then [(key, u)] else [])"

text \<open>
  The inherited \<^verbatim>\<open>destroy\<close> of the framework's mixin: the object of the queryset
  with the primary key of the URL, the object-level permissions of the view
  (\<open>permitted\<close>, the configured default), the deletion and status 204.
\<close>

definition TemporaryTokenDestroy_destroy ::
  "(request \<Rightarrow> string \<times> nat \<Rightarrow> bool) \<Rightarrow> store \<Rightarrow> request \<Rightarrow> string
     \<Rightarrow> ('j exn + 'j response) \<times> store" where
  "TemporaryTokenDestroy_destroy permitted s request pk =
     (case filter (\<lambda>t. fst t = pk) (TemporaryTokenDestroy_get_queryset s request pk) of
        [] \<Rightarrow> (Inl Http404, s)
      | [instance] \<Rightarrow>
          if permitted request instance
          then (Inr \<lparr>status = 204, body = Empty\<rparr>,
                s\<lparr>temporary_tokens := (temporary_tokens s)(fst instance := None)\<rparr>)
          else (Inl PermissionDenied, s)
      | _ \<Rightarrow> (Inl MultipleObjectsReturned, s))"

section \<open>A concrete store\<close>

text \<open>
  Two accounts, an activation token of the first and a password-change token of the
  second, and a temporary token of each; the properties below are run on it.
\<close>

definition alice :: user where
  "alice = \<lparr>id_user = 1, email = ''alice@example.org'', password = ''pw1'',
            is_active = False, is_staff = False\<rparr>"

definition bob :: user where
  "bob = \<lparr>id_user = 2, email = ''bob@example.org'', password = ''pw2'',
          is_active = True, is_staff = False\<rparr>"

definition activation_of_alice :: action_token where
  "activation_of_alice = \<lparr>id_token = 1, key = ''k1'', type_token = ''account_activation'',
                          user_id = 1, expired = False\<rparr>"

definition change_of_bob :: action_token where
  "change_of_bob = \<lparr>id_token = 2, key = ''k2'', type_token = ''password_change'',
                    user_id = 2, expired = False\<rparr>"

definition example_store :: store where
  "example_store = \<lparr>users = [alice, bob],
                    action_tokens = [activation_of_alice, change_of_bob],
                    temporary_tokens = [''s1'' \<mapsto> 1, ''s2'' \<mapsto> 2],
                    sent_emails = []\<rparr>"

definition request_of :: "user \<Rightarrow> (string \<times> string) list \<Rightarrow> request" where
  "request_of u kvs = \<lparr>user = u, data = map_of kvs\<rparr>"

definition email_repr :: "serializer_class \<Rightarrow> request \<Rightarrow> user \<Rightarrow> string" where
  "email_repr c r u = email u"

text \<open>
  Instances of the parameters: an owner check, a conversion of URL strings, the object
  permission of the logout view, validators that accept or reject everything, a reset
  mail that is queued, a password hasher, a serializer that keeps the instance and one that sets the email
  of the body.
\<close>

definition owner_or_staff :: "user \<Rightarrow> user \<Rightarrow> bool" where
  "owner_or_staff ru obj = (is_staff ru \<or> id_user ru = id_user obj)"

definition digit_pk :: "string \<Rightarrow> nat option" where
  "digit_pk v = map_of [(''1'', 1), (''2'', 2), (''3'', 3), (''99'', 99),
                         (''99999999999999999999'', 99999999999999999999)] v"

definition permit_all :: "request \<Rightarrow> string \<times> nat \<Rightarrow> bool" where
  "permit_all r t = True"

definition accept_all :: "store \<Rightarrow> (string \<rightharpoonup> string) \<Rightarrow> string option" where
  "accept_all s d = None"

definition reject_all :: "store \<Rightarrow> (string \<rightharpoonup> string) \<Rightarrow> string + user" where
  "reject_all s d = Inl ''email: this field is required''"

definition queue_reset :: "store \<Rightarrow> user \<Rightarrow> store" where
  "queue_reset s u = s\<lparr>sent_emails := (email u, ''reset_password'') # sent_emails s\<rparr>"

definition rev_hash :: "string option \<Rightarrow> string" where
  "rev_hash p = (case p of None \<Rightarrow> ''!'' | Some w \<Rightarrow> rev w)"

definition keep_fields :: "store \<Rightarrow> request \<Rightarrow> bool \<Rightarrow> user \<Rightarrow> string + user" where
  "keep_fields s r partial u = Inr u"

definition email_from_body :: "store \<Rightarrow> request \<Rightarrow> bool \<Rightarrow> user \<Rightarrow> string + user" where
  "email_from_body s r partial u =
     (case data r ''email'' of
        None \<Rightarrow> if partial then Inr u else Inl ''email: this field is required''
      | Some e \<Rightarrow> Inr (u\<lparr>email := e\<rparr>))"

section \<open>Properties\<close>

subsection \<open>Rows and primary keys\<close>

lemma filter_single_unique:
  assumes "filter p xs = [x]" and "r \<in> set xs" and "p r"
  shows "r = x"
proof -
  from assms(2,3) have "r \<in> set (filter p xs)" by simp
  with assms(1) show ?thesis by simp
qed

lemma get_user_Inr:
  assumes "get_user q i = Inr u"
  shows "filter (\<lambda>r. id_user r = i) q = [u]"
  using assms unfolding get_user_def
  by (auto split: list.splits)

lemma get_user_id:
  assumes "get_user q i = Inr u"
  shows "id_user u = i" and "u \<in> set q"
proof -
  have "u \<in> set (filter (\<lambda>r. id_user r = i) q)"
    using get_user_Inr [OF assms] by simp
  then show "id_user u = i" and "u \<in> set q" by simp_all
qed

lemma get_user_row:
  assumes "get_user q i = Inr u" and "r \<in> set q" and "id_user r = i"
  shows "r = u"
  using filter_single_unique [OF get_user_Inr [OF assms(1)] assms(2)] assms(3) by simp

lemma save_user_existing:
  assumes "get_user (users s) i = Inr u" and "id_user u' = i"
  shows "save_user s u' = s\<lparr>users := map (\<lambda>r. if r = u then u' else r) (users s)\<rparr>"
proof -
  have uid: "id_user u = i" and uin: "u \<in> set (users s)"
    using get_user_id [OF assms(1)] by blast+
  have ex: "\<exists>r \<in> set (users s). id_user r = id_user u'"
    using uid uin assms(2) by (intro bexI [of _ u]) simp_all
  have "map (\<lambda>r. if id_user r = id_user u' then u' else r) (users s)
      = map (\<lambda>r. if r = u then u' else r) (users s)"
  proof (rule map_cong [OF refl])
    fix r assume rin: "r \<in> set (users s)"
    show "(if id_user r = id_user u' then u' else r) = (if r = u then u' else r)"
    proof (cases "id_user r = i")
      case True
      then have "r = u" using get_user_row [OF assms(1) rin] by blast
      with True assms(2) show ?thesis by simp
    next
      case False
      then have "r \<noteq> u" using uid by blast
      with False assms(2) show ?thesis by simp
    qed
  qed
  with ex show ?thesis unfolding save_user_def by simp
qed

lemma get_user_after_save:
  assumes "get_user q i = (Inr u :: 'j exn + user)" and "id_user u' = i"
  shows "get_user (map (\<lambda>r. if r = u then u' else r) q) i = (Inr u' :: 'k exn + user)"
proof -
  have uid: "id_user u = i" using get_user_id(1) [OF assms(1)] .
  have "filter (\<lambda>r. id_user r = i) (map (\<lambda>r. if r = u then u' else r) q)
      = map (\<lambda>r. if r = u then u' else r)
          (filter ((\<lambda>r. id_user r = i) \<circ> (\<lambda>r. if r = u then u' else r)) q)"
    by (rule filter_map)
  also have "(\<lambda>r. id_user r = i) \<circ> (\<lambda>r. if r = u then u' else r) = (\<lambda>r. id_user r = i)"
    using uid assms(2) by (auto simp: fun_eq_iff)
  also have "filter (\<lambda>r. id_user r = i) q = [u]"
    using get_user_Inr [OF assms(1)] .
  finally show ?thesis by (simp add: get_user_def)
qed

lemma nonempty_has_member: "xs \<noteq> [] \<Longrightarrow> \<exists>y. y \<in> set xs"
  by (cases xs) auto

lemma action_tokens_save_user: "action_tokens (save_user s u) = action_tokens s"
  unfolding save_user_def by simp

lemma map_id_user_update:
  assumes "id_user u' = id_user u"
  shows "map id_user (map (\<lambda>r. if r = u then u' else r) q) = map id_user q"
  using assms by (induction q) simp_all

subsection \<open>Lookups of the user views\<close>

lemma get_object_Inr:
  assumes "get_object is_owner to_python action s request pk = (Inr u :: 'j exn + user)"
  shows "\<exists>i. get_user (users s) i = (Inr u :: 'j exn + user)"
  using assms
  unfolding get_object_def get_queryset_def get_object_or_404_def Let_def
  by (auto split: if_splits option.splits sum.splits exn.splits)

lemma get_object_user:
  assumes "get_object is_owner to_python action s request pk = (Inr u :: 'j exn + user)"
  shows "get_user (users s) (id_user u) = (Inr u :: 'j exn + user)"
proof -
  from get_object_Inr [OF assms] obtain i
    where i: "get_user (users s) i = (Inr u :: 'j exn + user)" by blast
  with get_user_id(1) [OF i] show ?thesis by simp
qed

lemma get_object_me:
  "get_object is_owner to_python action s request (PkStr ''me'')
     = (get_object is_owner to_python action s request (PkId (id_user (user request)))
          :: 'j exn + user)"
  unfolding get_object_def get_queryset_def Let_def by simp

lemma check_object_permissions_owner:
  assumes "is_owner (user request) obj"
  shows "check_object_permissions is_owner action request obj"
  using assms unfolding check_object_permissions_def get_permissions_def by simp

lemma pk_value_me:
  "pk_value to_python (snd (get_queryset s request (PkStr ''me'')))
     = Some (id_user (user request))"
  unfolding get_queryset_def pk_value_def Let_def by simp

lemma get_object_found:
  assumes "pk_value to_python (snd (get_queryset s request pk)) = Some i"
      and "i \<le> db_max_integer"
      and "get_user (users s) i = (Inr u :: 'j exn + user)"
      and "is_owner (user request) u"
  shows "get_object is_owner to_python action s request pk = (Inr u :: 'j exn + user)"
proof -
  have q: "get_queryset s request pk = (users s, snd (get_queryset s request pk))"
    unfolding get_queryset_def Let_def by simp
  have "get_object_or_404 to_python (users s) (snd (get_queryset s request pk))
          = (Inr u :: 'j exn + user)"
    unfolding get_object_or_404_def using assms(1,2,3) by simp
  moreover have "check_object_permissions is_owner action request u"
    using assms(4) by (rule check_object_permissions_owner)
  ultimately show ?thesis
    unfolding get_object_def by (subst q) simp
qed

lemma get_object_own:
  assumes "get_user (users s) (id_user (user request)) = (Inr me :: 'j exn + user)"
      and "id_user (user request) \<le> db_max_integer"
      and "is_owner (user request) me"
  shows "get_object is_owner to_python action s request (PkStr ''me'')
           = (Inr me :: 'j exn + user)"
  using pk_value_me assms(2,1,3) by (rule get_object_found)



lemma destroy_found:
  assumes "get_object is_owner to_python ''destroy'' s request pk = (Inr u :: 'j exn + user)"
  shows "destroy is_owner to_python s request pk =
           ((Inr \<lparr>status = 204, body = Empty\<rparr> :: 'j exn + 'j response),
            s\<lparr>users := map (\<lambda>r. if r = u then u\<lparr>is_active := False\<rparr> else r) (users s)\<rparr>)"
proof -
  note gu = get_object_user [OF assms]
  have sv: "save_user s (u\<lparr>is_active := False\<rparr>)
      = s\<lparr>users := map (\<lambda>r. if r = u then u\<lparr>is_active := False\<rparr> else r) (users s)\<rparr>"
    by (intro save_user_existing [OF gu]) simp
  show ?thesis unfolding destroy_def by (simp add: assms sv)
qed

subsection \<open>Evaluation on the concrete store\<close>

lemmas ex_defs = alice_def bob_def activation_of_alice_def change_of_bob_def example_store_def
  request_of_def email_repr_def

lemmas lookup_defs = get_object_def get_queryset_def get_object_or_404_def get_user_def
  pk_value_def db_max_integer_def check_object_permissions_def get_permissions_def owner_or_staff_def digit_pk_def

subsection \<open>Activation\<close>

lemma activation_single:
  assumes "filter_tokens s (data request ''activation_token'') ''account_activation'' = [t]"
      and "get_user (users s) (user_id t) = (Inr u :: 'j exn + user)"
  shows "UsersActivation_post repr s request =
           ((Inr \<lparr>status = 200,
                  body = Json (repr UserSerializer request (u\<lparr>is_active := True\<rparr>))\<rparr>
               :: 'j exn + 'j response),
            s\<lparr>users := map (\<lambda>r. if r = u then u\<lparr>is_active := True\<rparr> else r) (users s),
              action_tokens := filter (\<lambda>r. id_token r \<noteq> id_token t) (action_tokens s)\<rparr>)"
proof -
  have sv: "save_user s (u\<lparr>is_active := True\<rparr>)
      = s\<lparr>users := map (\<lambda>r. if r = u then u\<lparr>is_active := True\<rparr> else r) (users s)\<rparr>"
    using get_user_id(1) [OF assms(2)]
    by (intro save_user_existing [OF assms(2)]) simp
  show ?thesis
    unfolding UsersActivation_post_def Let_def
    by (simp add: assms sv delete_token_def)
qed

text \<open>
  C1. When the token of an activation request matches exactly one action token of type
  \<^verbatim>\<open>account_activation\<close> (and the token's owner is a row of the users),
  \<^verbatim>\<open>UsersActivation.post\<close> answers 200 with the serialized owner, the owner's row
  has \<^verbatim>\<open>is_active\<close> set, every other user row is as before, and the matched
  token is no longer in the store.
\<close>

theorem C1_activation_single_match:
  assumes "filter_tokens s (data request ''activation_token'') ''account_activation'' = [t]"
      and "get_user (users s) (user_id t) = (Inr u :: 'j exn + user)"
  shows "UsersActivation_post repr s request =
           ((Inr \<lparr>status = 200,
                  body = Json (repr UserSerializer request (u\<lparr>is_active := True\<rparr>))\<rparr>
               :: 'j exn + 'j response),
            s\<lparr>users := map (\<lambda>r. if r = u then u\<lparr>is_active := True\<rparr> else r) (users s),
              action_tokens := filter (\<lambda>r. id_token r \<noteq> id_token t) (action_tokens s)\<rparr>)
       \<and> get_user (users (snd (UsersActivation_post repr s request))) (user_id t)
           = (Inr (u\<lparr>is_active := True\<rparr>) :: 'j exn + user)
       \<and> t \<notin> set (action_tokens (snd (UsersActivation_post repr s request)))"
proof -
  note eq = activation_single [OF assms, of repr]
  have "get_user (map (\<lambda>r. if r = u then u\<lparr>is_active := True\<rparr> else r) (users s)) (user_id t)
      = (Inr (u\<lparr>is_active := True\<rparr>) :: 'j exn + user)"
    using get_user_id(1) [OF assms(2)]
    by (intro get_user_after_save [OF assms(2)]) simp
  then show ?thesis by (simp add: eq)
qed

theorem C1_activation_single_match_witness:
  "filter_tokens example_store
      (data (request_of alice [(''activation_token'', ''k1'')]) ''activation_token'')
      ''account_activation'' = [activation_of_alice]
   \<and> get_user (users example_store) (user_id activation_of_alice) = (Inr alice :: string exn + user)
   \<and> UsersActivation_post email_repr example_store
        (request_of alice [(''activation_token'', ''k1'')])
      = (Inr \<lparr>status = 200, body = Json ''alice@example.org''\<rparr>,
         \<lparr>users = [alice\<lparr>is_active := True\<rparr>, bob],
          action_tokens = [change_of_bob],
          temporary_tokens = [''s1'' \<mapsto> 1, ''s2'' \<mapsto> 2],
          sent_emails = []\<rparr>)"
proof -
  have h1: "filter_tokens example_store
      (data (request_of alice [(''activation_token'', ''k1'')]) ''activation_token'')
      ''account_activation'' = [activation_of_alice]"
    by (simp add: ex_defs filter_tokens_def)
  have h2: "get_user (users example_store) (user_id activation_of_alice)
      = (Inr alice :: string exn + user)"
    by (simp add: ex_defs get_user_def)
  from C1_activation_single_match [OF h1 h2, of email_repr]
  have "UsersActivation_post email_repr example_store
          (request_of alice [(''activation_token'', ''k1'')])
      = (Inr \<lparr>status = 200,
              body = Json (email_repr UserSerializer
                             (request_of alice [(''activation_token'', ''k1'')])
                             (alice\<lparr>is_active := True\<rparr>))\<rparr>,
         example_store\<lparr>users := map (\<lambda>r. if r = alice then alice\<lparr>is_active := True\<rparr> else r)
                                   (users example_store),
           action_tokens := filter (\<lambda>r. id_token r \<noteq> id_token activation_of_alice)
                              (action_tokens example_store)\<rparr>)"
    by (rule conjunct1)
  also have "\<dots> = (Inr \<lparr>status = 200, body = Json ''alice@example.org''\<rparr>,
         \<lparr>users = [alice\<lparr>is_active := True\<rparr>, bob],
          action_tokens = [change_of_bob],
          temporary_tokens = [''s1'' \<mapsto> 1, ''s2'' \<mapsto> 2],
          sent_emails = []\<rparr>)"
    by (simp add: ex_defs)
  finally show ?thesis using h1 h2 by blast
qed

text \<open>
  C2. When the token of an activation request matches no action token of type
  \<^verbatim>\<open>account_activation\<close>, or more than one, \<^verbatim>\<open>UsersActivation.post\<close>
  answers 400 with a message under the key \<^verbatim>\<open>activation_token\<close>.
\<close>

theorem C2_activation_no_single_match:
  assumes "length (filter_tokens s (data request ''activation_token'') ''account_activation'') \<noteq> 1"
  shows "fst (UsersActivation_post repr s request) =
           Inr \<lparr>status = 400,
                body = Dict [(''activation_token'',
                              activation_error (data request ''activation_token''))]\<rparr>
       \<and> status_code (fst (UsersActivation_post repr s request)) = 400"
  using assms unfolding UsersActivation_post_def Let_def by simp

theorem C2_activation_no_single_match_witness:
  "length (filter_tokens example_store
      (data (request_of alice [(''activation_token'', ''zz'')]) ''activation_token'')
      ''account_activation'') \<noteq> 1
   \<and> fst (UsersActivation_post email_repr example_store
        (request_of alice [(''activation_token'', ''zz'')]))
      = Inr \<lparr>status = 400,
             body = Dict [(''activation_token'',
                           CHR 0x22 # ''zz'' @ CHR 0x22 # '' is not a valid activation_token.'')]\<rparr>"
proof -
  have h: "length (filter_tokens example_store
      (data (request_of alice [(''activation_token'', ''zz'')]) ''activation_token'')
      ''account_activation'') \<noteq> 1"
    by (simp add: ex_defs filter_tokens_def)
  from C2_activation_no_single_match [OF h, of email_repr] h show ?thesis
    by (simp add: activation_error_def request_of_def)
qed

text \<open>
  C10. A failed activation (no matching token, or several) leaves the store as it was:
  no user is changed and no action token is deleted.
\<close>

theorem C10_failed_activation_keeps_store:
  assumes "length (filter_tokens s (data request ''activation_token'') ''account_activation'') \<noteq> 1"
  shows "snd (UsersActivation_post repr s request) = s"
  using assms unfolding UsersActivation_post_def Let_def by simp

theorem C10_failed_activation_keeps_store_witness:
  "length (filter_tokens example_store
      (data (request_of alice []) ''activation_token'') ''account_activation'') \<noteq> 1
   \<and> snd (UsersActivation_post email_repr example_store (request_of alice [])) = example_store"
proof -
  have h: "length (filter_tokens example_store
      (data (request_of alice []) ''activation_token'') ''account_activation'') \<noteq> 1"
    by (simp add: ex_defs filter_tokens_def)
  from C10_failed_activation_keeps_store [OF h, of email_repr] h show ?thesis by simp
qed

subsection \<open>Password change\<close>

lemma expired_token_gone:
  assumes "get_password_change_token s k = Some t"
  shows "get_password_change_token (expire (save_user s u) t) k = None"
proof (cases k)
  case None
  then show ?thesis
    unfolding get_password_change_token_def filter_tokens_def by simp
next
  case (Some k')
  let ?P = "\<lambda>r. key r = k' \<and> type_token r = ''password_change''"
  let ?f = "\<lambda>r. if id_token r = id_token t then r\<lparr>expired := True\<rparr> else r"
  have one: "filter (\<lambda>r. \<not> expired r) (filter ?P (action_tokens s)) = [t]"
    using assms Some unfolding get_password_change_token_def filter_tokens_def
    by (simp split: list.splits)
  have none: "\<not> (?P (?f r) \<and> \<not> expired (?f r))" if rin: "r \<in> set (action_tokens s)" for r
  proof (cases "id_token r = id_token t")
    case True
    then show ?thesis by simp
  next
    case False
    show ?thesis
    proof
      assume a: "?P (?f r) \<and> \<not> expired (?f r)"
      with False have "?P r" and "\<not> expired r" by simp_all
      with rin have "r \<in> set (filter (\<lambda>r. \<not> expired r) (filter ?P (action_tokens s)))"
        by simp
      with one have "r = t" by simp
      with False show False by simp
    qed
  qed
  have "filter (\<lambda>r. \<not> expired r) (filter ?P (map ?f (action_tokens s))) = []"
  proof (rule ccontr)
    assume "filter (\<lambda>r. \<not> expired r) (filter ?P (map ?f (action_tokens s))) \<noteq> []"
    then obtain y where
      "y \<in> set (filter (\<lambda>r. \<not> expired r) (filter ?P (map ?f (action_tokens s))))"
      using nonempty_has_member by blast
    then have y: "y \<in> set (map ?f (action_tokens s))" "?P y" "\<not> expired y"
      by simp_all
    from y(1) obtain r where "r \<in> set (action_tokens s)" and "y = ?f r"
      by (auto simp only: set_map image_iff)
    with none [of r] y(2,3) show False by blast
  qed
  then show ?thesis
    using Some unfolding get_password_change_token_def filter_tokens_def expire_def
    by (simp add: action_tokens_save_user)
qed

lemma change_password_no_token:
  fixes repr :: "serializer_class \<Rightarrow> request \<Rightarrow> user \<Rightarrow> 'j"
  assumes "get_password_change_token s (data request ''token'') = None"
  shows "\<exists>e. ChangePassword_post validate make_password repr s request = (Inl e, s)"
  unfolding ChangePassword_post_def Let_def
  by (cases "validate s (data request)") (simp_all add: assms)

text \<open>
  C3. When the body of a change-password request passes validation and its token is a
  valid password-change token (whose owner is a row of the users),
  \<^verbatim>\<open>ChangePassword.post\<close> answers 200 with the serialized owner, the owner's row
  carries the hash of the new password and every other user row is as before, the rows of
  the token are marked expired, and the token is no valid password-change token any more:
  every later change-password request with the same token ends in an exception and leaves
  the store as it is.
\<close>

theorem C3_change_password_consumes_token:
  fixes repr :: "serializer_class \<Rightarrow> request \<Rightarrow> user \<Rightarrow> 'j"
  assumes "validate s (data request) = None"
      and "get_password_change_token s (data request ''token'') = Some t"
      and "get_user (users s) (user_id t) = (Inr u :: 'j exn + user)"
  shows "ChangePassword_post validate make_password repr s request =
           (Inr \<lparr>status = 200,
                 body = Json (repr UserSerializer request
                   (u\<lparr>password := make_password (data request ''new_password'')\<rparr>))\<rparr>,
            s\<lparr>users := map (\<lambda>r. if r = u
                                then u\<lparr>password := make_password (data request ''new_password'')\<rparr>
                                else r) (users s),
              action_tokens := map (\<lambda>r. if id_token r = id_token t
                                        then r\<lparr>expired := True\<rparr> else r) (action_tokens s)\<rparr>)
       \<and> get_password_change_token
            (snd (ChangePassword_post validate make_password repr s request))
            (data request ''token'') = None
       \<and> (\<forall>validate' make_password' request'.
            data request' ''token'' = data request ''token''
            \<longrightarrow> (\<exists>e. ChangePassword_post validate' make_password' repr
                        (snd (ChangePassword_post validate make_password repr s request))
                        request'
                      = (Inl e, snd (ChangePassword_post validate make_password repr s request))))"
proof -
  let ?u' = "u\<lparr>password := make_password (data request ''new_password'')\<rparr>"
  have ok: "ChangePassword_post validate make_password repr s request =
           (Inr \<lparr>status = 200, body = Json (repr UserSerializer request ?u')\<rparr>,
            expire (save_user s ?u') t)"
    unfolding ChangePassword_post_def Let_def set_password_def
    by (simp add: assms)
  have sv: "save_user s ?u' = s\<lparr>users := map (\<lambda>r. if r = u then ?u' else r) (users s)\<rparr>"
    using get_user_id(1) [OF assms(3)]
    by (intro save_user_existing [OF assms(3)]) simp
  have st: "expire (save_user s ?u') t
      = s\<lparr>users := map (\<lambda>r. if r = u then ?u' else r) (users s),
          action_tokens := map (\<lambda>r. if id_token r = id_token t
                                    then r\<lparr>expired := True\<rparr> else r) (action_tokens s)\<rparr>"
    unfolding sv expire_def by simp
  have gone: "get_password_change_token (expire (save_user s ?u') t) (data request ''token'') = None"
    by (rule expired_token_gone [OF assms(2)])
  have again: "\<exists>e. ChangePassword_post validate' make_password' repr
                      (expire (save_user s ?u') t) request'
                    = (Inl e, expire (save_user s ?u') t)"
    if "data request' ''token'' = data request ''token''" for validate' make_password' request'
    using change_password_no_token [of "expire (save_user s ?u') t" request'] gone that
    by simp
  from ok st gone again show ?thesis by simp
qed

theorem C3_change_password_consumes_token_witness:
  "accept_all example_store
      (data (request_of bob [(''token'', ''k2''), (''new_password'', ''abc'')])) = None
   \<and> get_password_change_token example_store
        (data (request_of bob [(''token'', ''k2''), (''new_password'', ''abc'')]) ''token'')
      = Some change_of_bob
   \<and> get_user (users example_store) (user_id change_of_bob) = (Inr bob :: string exn + user)
   \<and> ChangePassword_post accept_all rev_hash email_repr example_store
        (request_of bob [(''token'', ''k2''), (''new_password'', ''abc'')])
      = (Inr \<lparr>status = 200, body = Json ''bob@example.org''\<rparr>,
         \<lparr>users = [alice, bob\<lparr>password := ''cba''\<rparr>],
          action_tokens = [activation_of_alice, change_of_bob\<lparr>expired := True\<rparr>],
          temporary_tokens = [''s1'' \<mapsto> 1, ''s2'' \<mapsto> 2],
          sent_emails = []\<rparr>)"
proof -
  let ?r = "request_of bob [(''token'', ''k2''), (''new_password'', ''abc'')]"
  have h1: "accept_all example_store (data ?r) = None"
    by (simp add: accept_all_def)
  have h2: "get_password_change_token example_store (data ?r ''token'') = Some change_of_bob"
    by (simp add: get_password_change_token_def filter_tokens_def ex_defs)
  have h3: "get_user (users example_store) (user_id change_of_bob)
      = (Inr bob :: string exn + user)"
    by (simp add: get_user_def ex_defs)
  have "ChangePassword_post accept_all rev_hash email_repr example_store ?r
      = (Inr \<lparr>status = 200,
              body = Json (email_repr UserSerializer ?r
                (bob\<lparr>password := rev_hash (data ?r ''new_password'')\<rparr>))\<rparr>,
         example_store\<lparr>users := map (\<lambda>r. if r = bob
                                then bob\<lparr>password := rev_hash (data ?r ''new_password'')\<rparr>
                                else r) (users example_store),
              action_tokens := map (\<lambda>r. if id_token r = id_token change_of_bob
                                        then r\<lparr>expired := True\<rparr> else r)
                                 (action_tokens example_store)\<rparr>)"
    using C3_change_password_consumes_token [where validate = accept_all and s = example_store and request = ?r
        and t = change_of_bob and u = bob and make_password = rev_hash and repr = email_repr,
        OF h1 h2 h3]
    by (rule conjunct1)
  also have "\<dots> = (Inr \<lparr>status = 200, body = Json ''bob@example.org''\<rparr>,
         \<lparr>users = [alice, bob\<lparr>password := ''cba''\<rparr>],
          action_tokens = [activation_of_alice, change_of_bob\<lparr>expired := True\<rparr>],
          temporary_tokens = [''s1'' \<mapsto> 1, ''s2'' \<mapsto> 2],
          sent_emails = []\<rparr>)"
    by (simp add: ex_defs rev_hash_def)
  finally show ?thesis using h1 h2 h3 by blast
qed

subsection \<open>Password reset\<close>

text \<open>
  C6. When the setting \<^verbatim>\<open>EMAIL_SERVICE\<close> is not \<^verbatim>\<open>True\<close>,
  \<^verbatim>\<open>ResetPassword.post\<close> answers 501 and the store is as before (no token is
  created, no email is sent); when it is \<^verbatim>\<open>True\<close> and the body fails validation,
  the answer is 400 with the serializer's errors, the store again as before.
\<close>

theorem C6_reset_password_errors:
  "(EMAIL_SERVICE LOCAL_SETTINGS \<noteq> PyTrue
      \<longrightarrow> ResetPassword_post validate send_reset_password LOCAL_SETTINGS s request
            = (Inr \<lparr>status = 501, body = Empty\<rparr>, s))
   \<and> (EMAIL_SERVICE LOCAL_SETTINGS = PyTrue \<and> validate s (data request) = Inl errors
      \<longrightarrow> ResetPassword_post validate send_reset_password LOCAL_SETTINGS s request
            = (Inr \<lparr>status = 400, body = Json errors\<rparr>, s))"
  unfolding ResetPassword_post_def by simp

theorem C6_reset_password_errors_witness:
  "EMAIL_SERVICE \<lparr>AUTO_ACTIVATE_USER = PyFalse, EMAIL_SERVICE = PyFalse\<rparr> \<noteq> PyTrue
   \<and> ResetPassword_post reject_all queue_reset
        \<lparr>AUTO_ACTIVATE_USER = PyFalse, EMAIL_SERVICE = PyFalse\<rparr>
        example_store (request_of alice [(''email'', ''alice@example.org'')])
      = (Inr \<lparr>status = 501, body = Empty\<rparr>, example_store)
   \<and> EMAIL_SERVICE \<lparr>AUTO_ACTIVATE_USER = PyFalse, EMAIL_SERVICE = PyTrue\<rparr> = PyTrue
   \<and> reject_all example_store (data (request_of alice []))
        = Inl ''email: this field is required''
   \<and> ResetPassword_post reject_all queue_reset
        \<lparr>AUTO_ACTIVATE_USER = PyFalse, EMAIL_SERVICE = PyTrue\<rparr>
        example_store (request_of alice [])
      = (Inr \<lparr>status = 400, body = Json ''email: this field is required''\<rparr>, example_store)"
  using C6_reset_password_errors [of "\<lparr>AUTO_ACTIVATE_USER = PyFalse, EMAIL_SERVICE = PyFalse\<rparr>"
        reject_all queue_reset example_store
        "request_of alice [(''email'', ''alice@example.org'')]"]
    C6_reset_password_errors [of "\<lparr>AUTO_ACTIVATE_USER = PyFalse, EMAIL_SERVICE = PyTrue\<rparr>"
        reject_all queue_reset example_store "request_of alice []"
        "''email: this field is required''"]
  by (simp add: reject_all_def)

subsection \<open>Deleting, retrieving and updating users\<close>

text \<open>
  C4, as stated for every existing user, fails when the object-level permissions refuse
  the request: \<open>bob\<close> is a row of the users, but the delete request of
  \<open>alice\<close>, who is neither staff nor the owner, for his primary key ends in
  \<^verbatim>\<open>PermissionDenied\<close>, status 403, and the store is as before.
\<close>

theorem C4_destroy_other_user_counterexample:
  "bob \<in> set (users example_store)
   \<and> destroy owner_or_staff digit_pk example_store (request_of alice []) (PkStr ''2'')
       = ((Inl PermissionDenied :: string exn + string response), example_store)
   \<and> status_code (fst (destroy owner_or_staff digit_pk example_store (request_of alice [])
         (PkStr ''2'') :: (string exn + string response) \<times> store)) = 403"
proof -
  have lookup: "get_object owner_or_staff digit_pk ''destroy'' example_store
       (request_of alice []) (PkStr ''2'') = (Inl PermissionDenied :: string exn + user)"
    by (simp add: lookup_defs ex_defs)
  have "destroy owner_or_staff digit_pk example_store (request_of alice []) (PkStr ''2'')
      = ((Inl PermissionDenied :: string exn + string response), example_store)"
    unfolding destroy_def by (simp add: lookup)
  then show ?thesis by (simp add: ex_defs)
qed

text \<open>
  C4, amended. When the primary key of a delete request is within the database's integer
  range, exactly one user row \<open>u\<close> has it, and the object-level permissions admit the
  requesting user to \<open>u\<close>, \<^verbatim>\<open>UserViewSet.destroy\<close> answers 204 and the store
  differs in that one row only, whose \<^verbatim>\<open>is_active\<close> is now false: no row is
  removed, the primary keys are the same list, the other fields of \<open>u\<close> and all
  other tables are as before.
\<close>

theorem C4_destroy_deactivates_only:
  assumes "pk_value to_python (snd (get_queryset s request pk)) = Some i"
      and "i \<le> db_max_integer"
      and "get_user (users s) i = (Inr u :: 'j exn + user)"
      and "is_owner (user request) u"
  shows "destroy is_owner to_python s request pk =
           ((Inr \<lparr>status = 204, body = Empty\<rparr> :: 'j exn + 'j response),
            s\<lparr>users := map (\<lambda>r. if r = u then u\<lparr>is_active := False\<rparr> else r) (users s)\<rparr>)
       \<and> u \<in> set (users s)
       \<and> map id_user (users (snd (destroy is_owner to_python s request pk
             :: ('j exn + 'j response) \<times> store)))
           = map id_user (users s)"
proof -
  have go: "get_object is_owner to_python ''destroy'' s request pk = (Inr u :: 'j exn + user)"
    using assms by (rule get_object_found)
  note res = destroy_found [OF go]
  have ids: "map id_user (map (\<lambda>r. if r = u then u\<lparr>is_active := False\<rparr> else r) (users s))
           = map id_user (users s)"
    by (rule map_id_user_update) simp
  from res get_user_id(2) [OF assms(3)] ids show ?thesis by simp
qed

theorem C4_destroy_deactivates_only_witness:
  "pk_value digit_pk (snd (get_queryset example_store (request_of bob []) (PkStr ''2'')))
     = Some 2
   \<and> 2 \<le> db_max_integer
   \<and> get_user (users example_store) 2 = (Inr bob :: string exn + user)
   \<and> owner_or_staff (user (request_of bob [])) bob
   \<and> destroy owner_or_staff digit_pk example_store (request_of bob []) (PkStr ''2'')
     = ((Inr \<lparr>status = 204, body = Empty\<rparr> :: string exn + string response),
        \<lparr>users = [alice, bob\<lparr>is_active := False\<rparr>],
         action_tokens = [activation_of_alice, change_of_bob],
         temporary_tokens = [''s1'' \<mapsto> 1, ''s2'' \<mapsto> 2],
         sent_emails = []\<rparr>)"
proof -
  have h1: "pk_value digit_pk (snd (get_queryset example_store (request_of bob [])
      (PkStr ''2''))) = Some 2"
    by (simp add: pk_value_def get_queryset_def digit_pk_def)
  have h2: "2 \<le> db_max_integer"
    by (simp add: db_max_integer_def)
  have h3: "get_user (users example_store) 2 = (Inr bob :: string exn + user)"
    by (simp add: get_user_def ex_defs)
  have h4: "owner_or_staff (user (request_of bob [])) bob"
    by (simp add: owner_or_staff_def ex_defs)
  from C4_destroy_deactivates_only [where to_python = digit_pk and s = example_store and request = "request_of bob []"
      and pk = "PkStr ''2''" and i = 2 and u = bob and is_owner = owner_or_staff,
      OF h1 h2 h3 h4]
  have "destroy owner_or_staff digit_pk example_store (request_of bob []) (PkStr ''2'')
     = ((Inr \<lparr>status = 204, body = Empty\<rparr> :: string exn + string response),
        example_store\<lparr>users := map (\<lambda>r. if r = bob then bob\<lparr>is_active := False\<rparr> else r)
                                  (users example_store)\<rparr>)"
    by (rule conjunct1)
  also have "example_store\<lparr>users := map (\<lambda>r. if r = bob then bob\<lparr>is_active := False\<rparr> else r)
                                  (users example_store)\<rparr>
      = \<lparr>users = [alice, bob\<lparr>is_active := False\<rparr>],
         action_tokens = [activation_of_alice, change_of_bob],
         temporary_tokens = [''s1'' \<mapsto> 1, ''s2'' \<mapsto> 2],
         sent_emails = []\<rparr>"
    by (simp add: ex_defs)
  finally show ?thesis using h1 h2 h3 h4 by blast
qed




text \<open>
  C5, as stated for every handler, fails at \<^verbatim>\<open>UserViewSet.destroy\<close>: for the
  account \<open>alice\<close>, who is not staff, and a primary key no user has, the lookup raises
  \<^verbatim>\<open>Http404\<close> and the answer is 204, not 403.
\<close>

theorem C5_destroy_not_found_counterexample:
  "\<not> is_staff (user (request_of alice []))
   \<and> get_object owner_or_staff digit_pk ''destroy'' example_store (request_of alice []) (PkStr ''99'')
       = (Inl Http404 :: string exn + user)
   \<and> status_code (fst (destroy owner_or_staff digit_pk example_store (request_of alice [])
         (PkStr ''99'') :: (string exn + string response) \<times> store)) = 204"
proof -
  have lookup: "get_object owner_or_staff digit_pk ''destroy'' example_store
       (request_of alice []) (PkStr ''99'') = (Inl Http404 :: string exn + user)"
    by (simp add: get_object_def get_queryset_def get_object_or_404_def get_user_def
        pk_value_def db_max_integer_def digit_pk_def ex_defs)
  have "destroy owner_or_staff digit_pk example_store (request_of alice []) (PkStr ''99'')
      = ((Inr \<lparr>status = 204, body = Empty\<rparr> :: string exn + string response), example_store)"
    unfolding destroy_def by (simp add: lookup)
  with lookup show ?thesis by (simp add: ex_defs)
qed

text \<open>
  C5, amended. For a requesting user who is not staff, \<^verbatim>\<open>retrieve\<close>,
  \<^verbatim>\<open>update\<close> and \<^verbatim>\<open>partial_update\<close> of \<^verbatim>\<open>UserViewSet\<close> answer 403
  whenever the lookup raises \<^verbatim>\<open>Http404\<close>, and never answer 404.
\<close>

theorem C5_not_found_is_403_for_retrieve_update:
  fixes repr :: "serializer_class \<Rightarrow> request \<Rightarrow> user \<Rightarrow> 'j"
  assumes "\<not> is_staff (user request)"
  shows "(get_object is_owner to_python ''retrieve'' s request pk = (Inl Http404 :: 'j exn + user)
            \<longrightarrow> retrieve is_owner to_python repr s request pk = Inl PermissionDenied
              \<and> status_code (retrieve is_owner to_python repr s request pk) = 403)
       \<and> (get_object is_owner to_python action s request pk = (Inl Http404 :: 'j exn + user)
            \<longrightarrow> update is_owner to_python validate repr action partial s request pk
                  = (Inl PermissionDenied, s)
              \<and> status_code (fst (update is_owner to_python validate repr action partial
                    s request pk)) = 403)
       \<and> (get_object is_owner to_python ''partial_update'' s request pk = (Inl Http404 :: 'j exn + user)
            \<longrightarrow> status_code (fst (partial_update is_owner to_python validate repr
                    s request pk)) = 403)
       \<and> status_code (retrieve is_owner to_python repr s request pk) \<noteq> 404
       \<and> status_code (fst (update is_owner to_python validate repr action partial
                    s request pk)) \<noteq> 404"
proof -
  have r1: "get_object is_owner to_python ''retrieve'' s request pk = (Inl Http404 :: 'j exn + user)
       \<Longrightarrow> retrieve is_owner to_python repr s request pk = Inl PermissionDenied"
    using assms unfolding retrieve_def super_retrieve_def by simp
  have u1: "get_object is_owner to_python a s request pk = (Inl Http404 :: 'j exn + user)
       \<Longrightarrow> update is_owner to_python validate repr a p s request pk = (Inl PermissionDenied, s)"
    for a p
    using assms unfolding update_def super_update_def by simp
  have r2: "status_code (retrieve is_owner to_python repr s request pk) \<noteq> 404"
  proof (cases "get_object is_owner to_python ''retrieve'' s request pk :: 'j exn + user")
    case (Inl e)
    then show ?thesis
      using assms unfolding retrieve_def super_retrieve_def by (cases e) simp_all
  next
    case (Inr u)
    then show ?thesis
      using assms unfolding retrieve_def super_retrieve_def by simp
  qed
  have u2: "status_code (fst (update is_owner to_python validate repr action partial
                    s request pk)) \<noteq> 404"
  proof (cases "get_object is_owner to_python action s request pk :: 'j exn + user")
    case (Inl e)
    then show ?thesis
      using assms unfolding update_def super_update_def by (cases e) simp_all
  next
    case (Inr u)
    then show ?thesis
      using assms unfolding update_def super_update_def
      by (cases "validate s request partial u") simp_all
  qed
  from r1 u1 [of action partial] u1 [of "''partial_update''" True] r2 u2
  show ?thesis unfolding partial_update_def by simp
qed

theorem C5_not_found_is_403_for_retrieve_update_witness:
  "\<not> is_staff (user (request_of alice []))
   \<and> get_object owner_or_staff digit_pk ''retrieve'' example_store (request_of alice [])
       (PkStr ''99'') = (Inl Http404 :: string exn + user)
   \<and> get_object owner_or_staff digit_pk ''update'' example_store (request_of alice [])
       (PkStr ''99'') = (Inl Http404 :: string exn + user)
   \<and> get_object owner_or_staff digit_pk ''partial_update'' example_store (request_of alice [])
       (PkStr ''99'') = (Inl Http404 :: string exn + user)
   \<and> status_code (retrieve owner_or_staff digit_pk email_repr example_store
         (request_of alice []) (PkStr ''99'')) = 403
   \<and> status_code (fst (update owner_or_staff digit_pk keep_fields email_repr ''update'' False
         example_store (request_of alice []) (PkStr ''99''))) = 403
   \<and> status_code (fst (partial_update owner_or_staff digit_pk keep_fields email_repr
         example_store (request_of alice []) (PkStr ''99''))) = 403"
proof -
  have ns: "\<not> is_staff (user (request_of alice []))"
    by (simp add: ex_defs)
  have l: "get_object owner_or_staff digit_pk a example_store (request_of alice [])
       (PkStr ''99'') = (Inl Http404 :: string exn + user)" for a
    by (simp add: get_object_def get_queryset_def get_object_or_404_def get_user_def
        pk_value_def db_max_integer_def digit_pk_def ex_defs)
  from C5_not_found_is_403_for_retrieve_update [OF ns, of owner_or_staff digit_pk example_store "PkStr ''99''" email_repr
      "''update''" keep_fields False] l ns
  show ?thesis by simp
qed

text \<open>
  C9. With the string \<^verbatim>\<open>"me"\<close> as primary key of the URL,
  \<^verbatim>\<open>get_queryset\<close> leaves the primary key of the requesting user in its place, so
  the lookup, \<^verbatim>\<open>retrieve\<close>, \<^verbatim>\<open>update\<close> and \<^verbatim>\<open>destroy\<close> do what
  they do for the requesting user's own primary key, and an object the lookup returns is a
  user row with the primary key of the requesting user. When the requesting user has the
  row \<open>me\<close> in the store (under a primary key the database can hold, and the
  object-level permissions admit the user to the own row), retrieving \<^verbatim>\<open>"me"\<close> answers 200 with the representation of \<open>me\<close>,
  deleting \<^verbatim>\<open>"me"\<close> answers 204 and sets \<^verbatim>\<open>is_active\<close> of that row to
  false, and updating \<^verbatim>\<open>"me"\<close> validates the body against \<open>me\<close> and saves
  the validated instance in the place of that row.
\<close>

theorem C9_me_is_requesting_user:
  fixes repr :: "serializer_class \<Rightarrow> request \<Rightarrow> user \<Rightarrow> 'j"
  shows "get_queryset s request (PkStr ''me'') = (users s, PkId (id_user (user request)))
   \<and> get_object is_owner to_python action s request (PkStr ''me'')
       = (get_object is_owner to_python action s request (PkId (id_user (user request)))
            :: 'j exn + user)
   \<and> retrieve is_owner to_python repr s request (PkStr ''me'')
       = retrieve is_owner to_python repr s request (PkId (id_user (user request)))
   \<and> update is_owner to_python validate repr action partial s request (PkStr ''me'')
       = update is_owner to_python validate repr action partial s request
           (PkId (id_user (user request)))
   \<and> destroy is_owner to_python s request (PkStr ''me'')
       = (destroy is_owner to_python s request (PkId (id_user (user request)))
            :: ('j exn + 'j response) \<times> store)
   \<and> (\<forall>obj. get_object is_owner to_python action s request (PkStr ''me'')
               = (Inr obj :: 'j exn + user)
          \<longrightarrow> id_user obj = id_user (user request) \<and> obj \<in> set (users s))
   \<and> (\<forall>me. get_user (users s) (id_user (user request)) = (Inr me :: 'j exn + user)
            \<and> id_user (user request) \<le> db_max_integer
            \<and> is_owner (user request) me
          \<longrightarrow> retrieve is_owner to_python repr s request (PkStr ''me'')
                = Inr \<lparr>status = 200, body = Json (repr UserSerializer request me)\<rparr>
            \<and> destroy is_owner to_python s request (PkStr ''me'')
                = ((Inr \<lparr>status = 204, body = Empty\<rparr> :: 'j exn + 'j response),
                   s\<lparr>users := map (\<lambda>r. if r = me then me\<lparr>is_active := False\<rparr> else r)
                                 (users s)\<rparr>)
            \<and> (\<forall>errors. validate s request partial me = Inl errors
                  \<longrightarrow> update is_owner to_python validate repr action partial s request
                        (PkStr ''me'')
                      = (Inl (ValidationError errors), s))
            \<and> (\<forall>me'. validate s request partial me = Inr me'
                  \<longrightarrow> update is_owner to_python validate repr action partial s request
                        (PkStr ''me'')
                      = (Inr \<lparr>status = 200,
                              body = Json (repr (get_serializer_class action) request me')\<rparr>,
                         save_user s me')
                    \<and> (id_user me' = id_user me
                        \<longrightarrow> save_user s me'
                            = s\<lparr>users := map (\<lambda>r. if r = me then me' else r) (users s)\<rparr>)))"
proof -
  have q: "get_queryset s request (PkStr ''me'') = (users s, PkId (id_user (user request)))"
    unfolding get_queryset_def Let_def by simp
  have r: "retrieve is_owner to_python repr s request (PkStr ''me'')
       = retrieve is_owner to_python repr s request (PkId (id_user (user request)))"
    unfolding retrieve_def super_retrieve_def by (simp only: get_object_me)
  have u: "update is_owner to_python validate repr action partial s request (PkStr ''me'')
       = update is_owner to_python validate repr action partial s request
           (PkId (id_user (user request)))"
    unfolding update_def super_update_def by (simp only: get_object_me)
  have d: "destroy is_owner to_python s request (PkStr ''me'')
       = (destroy is_owner to_python s request (PkId (id_user (user request)))
            :: ('j exn + 'j response) \<times> store)"
    unfolding destroy_def by (simp only: get_object_me)
  have o: "id_user obj = id_user (user request) \<and> obj \<in> set (users s)"
    if h: "get_object is_owner to_python action s request (PkStr ''me'')
             = (Inr obj :: 'j exn + user)" for obj
  proof -
    have "get_object_or_404 to_python (users s) (PkId (id_user (user request)))
            = (Inr obj :: 'j exn + user)"
      using h unfolding get_object_def get_queryset_def Let_def
      by (simp split: sum.splits if_splits)
    then have "get_user (users s) (id_user (user request)) = (Inr obj :: 'j exn + user)"
      unfolding get_object_or_404_def pk_value_def
      by (simp split: sum.splits exn.splits if_splits)
    from get_user_id [OF this] show ?thesis by simp
  qed
  have own: "retrieve is_owner to_python repr s request (PkStr ''me'')
                = Inr \<lparr>status = 200, body = Json (repr UserSerializer request me)\<rparr>
            \<and> destroy is_owner to_python s request (PkStr ''me'')
                = ((Inr \<lparr>status = 204, body = Empty\<rparr> :: 'j exn + 'j response),
                   s\<lparr>users := map (\<lambda>r. if r = me then me\<lparr>is_active := False\<rparr> else r)
                                 (users s)\<rparr>)
            \<and> (\<forall>errors. validate s request partial me = Inl errors
                  \<longrightarrow> update is_owner to_python validate repr action partial s request
                        (PkStr ''me'')
                      = (Inl (ValidationError errors), s))
            \<and> (\<forall>me'. validate s request partial me = Inr me'
                  \<longrightarrow> update is_owner to_python validate repr action partial s request
                        (PkStr ''me'')
                      = (Inr \<lparr>status = 200,
                              body = Json (repr (get_serializer_class action) request me')\<rparr>,
                         save_user s me')
                    \<and> (id_user me' = id_user me
                        \<longrightarrow> save_user s me'
                            = s\<lparr>users := map (\<lambda>r. if r = me then me' else r) (users s)\<rparr>))"
    if row: "get_user (users s) (id_user (user request)) = (Inr me :: 'j exn + user)"
      and rng: "id_user (user request) \<le> db_max_integer"
      and own: "is_owner (user request) me" for me
  proof -
    have g: "get_object is_owner to_python a s request (PkStr ''me'')
        = (Inr me :: 'j exn + user)" for a
      using row rng own by (rule get_object_own)
    have r1: "retrieve is_owner to_python repr s request (PkStr ''me'')
                = Inr \<lparr>status = 200, body = Json (repr UserSerializer request me)\<rparr>"
      unfolding retrieve_def super_retrieve_def get_serializer_class_def
      by (simp add: g)
    have d1: "destroy is_owner to_python s request (PkStr ''me'')
                = ((Inr \<lparr>status = 204, body = Empty\<rparr> :: 'j exn + 'j response),
                   s\<lparr>users := map (\<lambda>r. if r = me then me\<lparr>is_active := False\<rparr> else r)
                                 (users s)\<rparr>)"
      by (rule destroy_found [OF g])
    have u1: "update is_owner to_python validate repr action partial s request (PkStr ''me'')
                = (Inl (ValidationError errors), s)"
      if "validate s request partial me = Inl errors" for errors
      unfolding update_def super_update_def by (simp add: g that)
    have u2: "update is_owner to_python validate repr action partial s request (PkStr ''me'')
                = (Inr \<lparr>status = 200,
                        body = Json (repr (get_serializer_class action) request me')\<rparr>,
                   save_user s me')"
      if "validate s request partial me = Inr me'" for me'
      unfolding update_def super_update_def by (simp add: g that)
    have sv: "save_user s me' = s\<lparr>users := map (\<lambda>r. if r = me then me' else r) (users s)\<rparr>"
      if "id_user me' = id_user me" for me'
      using row that get_user_id(1) [OF row]
      by (intro save_user_existing [OF row]) simp
    from r1 d1 u1 u2 sv show ?thesis by blast
  qed
  from q get_object_me [of is_owner to_python action s request] r u d o own
  show ?thesis by blast
qed

theorem C9_me_is_requesting_user_witness:
  "get_user (users example_store)
      (id_user (user (request_of bob [(''email'', ''b@example.org'')])))
     = (Inr bob :: string exn + user)
   \<and> id_user (user (request_of bob [(''email'', ''b@example.org'')])) \<le> db_max_integer
   \<and> owner_or_staff (user (request_of bob [(''email'', ''b@example.org'')])) bob
   \<and> email_from_body example_store (request_of bob [(''email'', ''b@example.org'')]) False bob
       = Inr (bob\<lparr>email := ''b@example.org''\<rparr>)
   \<and> retrieve owner_or_staff digit_pk email_repr example_store
        (request_of bob [(''email'', ''b@example.org'')]) (PkStr ''me'')
       = Inr \<lparr>status = 200, body = Json ''bob@example.org''\<rparr>
   \<and> destroy owner_or_staff digit_pk example_store
        (request_of bob [(''email'', ''b@example.org'')]) (PkStr ''me'')
       = ((Inr \<lparr>status = 204, body = Empty\<rparr> :: string exn + string response),
          \<lparr>users = [alice, bob\<lparr>is_active := False\<rparr>],
           action_tokens = [activation_of_alice, change_of_bob],
           temporary_tokens = [''s1'' \<mapsto> 1, ''s2'' \<mapsto> 2],
           sent_emails = []\<rparr>)
   \<and> update owner_or_staff digit_pk email_from_body email_repr ''update'' False example_store
        (request_of bob [(''email'', ''b@example.org'')]) (PkStr ''me'')
       = (Inr \<lparr>status = 200, body = Json ''b@example.org''\<rparr>,
          \<lparr>users = [alice, bob\<lparr>email := ''b@example.org''\<rparr>],
           action_tokens = [activation_of_alice, change_of_bob],
           temporary_tokens = [''s1'' \<mapsto> 1, ''s2'' \<mapsto> 2],
           sent_emails = []\<rparr>)"
proof -
  let ?r = "request_of bob [(''email'', ''b@example.org'')]"
  have h1: "get_user (users example_store) (id_user (user ?r)) = (Inr bob :: string exn + user)"
    by (simp add: get_user_def ex_defs)
  have h2: "id_user (user ?r) \<le> db_max_integer"
    by (simp add: db_max_integer_def ex_defs)
  have h3: "owner_or_staff (user ?r) bob"
    by (simp add: owner_or_staff_def ex_defs)
  have h4: "email_from_body example_store ?r False bob = Inr (bob\<lparr>email := ''b@example.org''\<rparr>)"
    by (simp add: email_from_body_def request_of_def)
  have h5: "id_user (bob\<lparr>email := ''b@example.org''\<rparr>) = id_user bob"
    by simp
  note own = C9_me_is_requesting_user [of example_store ?r owner_or_staff digit_pk "''update''" email_repr
      email_from_body False, THEN conjunct2, THEN conjunct2, THEN conjunct2, THEN conjunct2,
      THEN conjunct2, THEN conjunct2, THEN spec, of bob, THEN mp,
      OF conjI [OF h1 conjI [OF h2 h3]]]
  note r = own [THEN conjunct1]
  note d = own [THEN conjunct2, THEN conjunct1]
  note u = own [THEN conjunct2, THEN conjunct2, THEN conjunct2, THEN spec, THEN mp, OF h4]
  note u1 = u [THEN conjunct1]
  note u2 = u [THEN conjunct2, THEN mp, OF h5]
  have "retrieve owner_or_staff digit_pk email_repr example_store ?r (PkStr ''me'')
          = Inr \<lparr>status = 200, body = Json ''bob@example.org''\<rparr>"
    using r by (simp add: ex_defs)
  moreover have "destroy owner_or_staff digit_pk example_store ?r (PkStr ''me'')
          = ((Inr \<lparr>status = 204, body = Empty\<rparr> :: string exn + string response),
             \<lparr>users = [alice, bob\<lparr>is_active := False\<rparr>],
              action_tokens = [activation_of_alice, change_of_bob],
              temporary_tokens = [''s1'' \<mapsto> 1, ''s2'' \<mapsto> 2],
              sent_emails = []\<rparr>)"
    using d by (simp add: ex_defs)
  moreover have "update owner_or_staff digit_pk email_from_body email_repr ''update'' False
           example_store ?r (PkStr ''me'')
          = (Inr \<lparr>status = 200, body = Json ''b@example.org''\<rparr>,
             \<lparr>users = [alice, bob\<lparr>email := ''b@example.org''\<rparr>],
              action_tokens = [activation_of_alice, change_of_bob],
              temporary_tokens = [''s1'' \<mapsto> 1, ''s2'' \<mapsto> 2],
              sent_emails = []\<rparr>)"
    unfolding u1 u2 by (simp add: ex_defs)
  ultimately show ?thesis using h1 h2 h3 h4 by blast
qed

subsection \<open>Logout\<close>

text \<open>
  C7. The logout view changes the temporary tokens at most at the key of the URL, and
  there only when that token is bound to the requesting user, in which case it is
  deleted; when the token with that key is bound to another user, the request ends in
  \<^verbatim>\<open>Http404\<close> and the store is as before.
\<close>

theorem C7_logout_deletes_own_token_only:
  "(\<forall>k. temporary_tokens (snd (TemporaryTokenDestroy_destroy permitted s request pk)) k
          \<noteq> temporary_tokens s k
        \<longrightarrow> k = pk \<and> temporary_tokens s k = Some (id_user (user request))
            \<and> temporary_tokens (snd (TemporaryTokenDestroy_destroy permitted s request pk)) k
                = None)
   \<and> (\<forall>u. temporary_tokens s pk = Some u \<and> u \<noteq> id_user (user request)
        \<longrightarrow> TemporaryTokenDestroy_destroy permitted s request pk = (Inl Http404, s))"
  unfolding TemporaryTokenDestroy_destroy_def TemporaryTokenDestroy_get_queryset_def Let_def
  by (cases "temporary_tokens s pk") auto

theorem C7_logout_deletes_own_token_only_witness:
  "temporary_tokens (snd (TemporaryTokenDestroy_destroy permit_all example_store
       (request_of alice []) ''s1'' :: (string exn + string response) \<times> store)) ''s1''
     \<noteq> temporary_tokens example_store ''s1''
   \<and> temporary_tokens example_store ''s1'' = Some (id_user (user (request_of alice [])))
   \<and> temporary_tokens (snd (TemporaryTokenDestroy_destroy permit_all example_store
       (request_of alice []) ''s1'' :: (string exn + string response) \<times> store)) ''s1'' = None
   \<and> temporary_tokens example_store ''s1'' = Some 1
   \<and> 1 \<noteq> id_user (user (request_of bob []))
   \<and> TemporaryTokenDestroy_destroy permit_all example_store (request_of bob []) ''s1''
       = ((Inl Http404 :: string exn + string response), example_store)"
proof -
  have ch: "temporary_tokens (snd (TemporaryTokenDestroy_destroy permit_all example_store
       (request_of alice []) ''s1'' :: (string exn + string response) \<times> store)) ''s1''
     \<noteq> temporary_tokens example_store ''s1''"
    by (simp add: TemporaryTokenDestroy_destroy_def TemporaryTokenDestroy_get_queryset_def
        permit_all_def ex_defs)
  have ot: "temporary_tokens example_store ''s1'' = Some 1
      \<and> 1 \<noteq> id_user (user (request_of bob []))"
    by (simp add: ex_defs)
  have a: "\<forall>k. temporary_tokens (snd (TemporaryTokenDestroy_destroy permit_all example_store
               (request_of alice []) ''s1'' :: (string exn + string response) \<times> store)) k
            \<noteq> temporary_tokens example_store k
        \<longrightarrow> k = ''s1''
          \<and> temporary_tokens example_store k = Some (id_user (user (request_of alice [])))
          \<and> temporary_tokens (snd (TemporaryTokenDestroy_destroy permit_all example_store
               (request_of alice []) ''s1'' :: (string exn + string response) \<times> store)) k
              = None"
    using C7_logout_deletes_own_token_only [of permit_all example_store "request_of alice []" "''s1''"] by (rule conjunct1)
  have b: "\<forall>u. temporary_tokens example_store ''s1'' = Some u
            \<and> u \<noteq> id_user (user (request_of bob []))
        \<longrightarrow> TemporaryTokenDestroy_destroy permit_all example_store (request_of bob []) ''s1''
            = ((Inl Http404 :: string exn + string response), example_store)"
    using C7_logout_deletes_own_token_only [of permit_all example_store "request_of bob []" "''s1''"] by (rule conjunct2)
  from a ch have "temporary_tokens example_store ''s1''
        = Some (id_user (user (request_of alice [])))
      \<and> temporary_tokens (snd (TemporaryTokenDestroy_destroy permit_all example_store
           (request_of alice []) ''s1'' :: (string exn + string response) \<times> store)) ''s1''
          = None"
    by blast
  moreover from b ot
  have "TemporaryTokenDestroy_destroy permit_all example_store (request_of bob []) ''s1''
            = ((Inl Http404 :: string exn + string response), example_store)"
    by blast
  ultimately show ?thesis using ch ot by blast
qed

end
